theory Spec2Isabelle
  imports Main "HOL-Library.Word"
begin

section \<open>Data model\<close>

text \<open>
  The update types of the bot library are structs reached through pointers. A nil
  pointer is \<open>None\<close>; reading a field through it is a runtime panic, which every
  function below returns as a value.
\<close>

datatype error = TooManyRequestsError int | ErrorsNew string

datatype 'a result = Return 'a | Panic

datatype ChatType =
  ChatTypePrivate | ChatTypeGroup | ChatTypeSupergroup | ChatTypeChannel | ChatTypeOther string

datatype MessageEntityType =
  MessageEntityTypeMention | MessageEntityTypeTextMention | MessageEntityTypeBotCommand
  | MessageEntityTypeOther string

record User =
  User_ID :: int
  User_Username :: string

record MessageEntity =
  Entity_Type :: MessageEntityType
  Entity_Offset :: int
  Entity_Length :: int
  Entity_User :: "User option"

text \<open>The message a message replies to; only its sender is read.\<close>

record ReplyMessage =
  Reply_From :: "User option"

record Message =
  Message_ID :: int
  Message_From :: "User option"
  Message_ChatType :: ChatType
  Message_Text :: string
  Message_Entities :: "MessageEntity list option"
  Message_Caption :: string
  Message_CaptionEntities :: "MessageEntity list option"
  Message_ReplyToMessage :: "ReplyMessage option"

text \<open>
  A callback query points at its origin message, which is nil when the message is
  inaccessible.
\<close>

record CallbackQuery =
  Callback_ID :: string
  Callback_From :: User
  Callback_Data :: string
  Callback_Message :: "Message option"

record Update =
  Update_Message :: "Message option"
  Update_CallbackQuery :: "CallbackQuery option"

text \<open>
  What a handler can do to the world besides returning: write to the structured log.
  The record is extensible, so a test double can carry more state.
\<close>

datatype level = LevelInfo | LevelError

text \<open>
  A log attribute is a string; \<open>AttrError err\<close> stands for the text \<open>err.Error()\<close>.
\<close>

datatype attr = AttrString string | AttrError error

record world =
  slog :: "(level \<times> string \<times> attr) list"

definition slog_write :: "level \<Rightarrow> string \<Rightarrow> attr \<Rightarrow> 'z world_scheme \<Rightarrow> 'z world_scheme" where
  "slog_write l msg a w = w\<lparr>slog := slog w @ [(l, msg, a)]\<rparr>"

section \<open>Handlers and middleware\<close>

text \<open>
  A handler receives the update by pointer: it returns its error together with the
  update as it left it, and the world.
\<close>

type_synonym 'z HandlerFunc =
  "Update \<Rightarrow> 'z world_scheme \<Rightarrow> (error option \<times> Update \<times> 'z world_scheme) result"

type_synonym 'z MiddlewareFunc = "'z HandlerFunc \<Rightarrow> 'z HandlerFunc"

type_synonym 'z ErrorHandlerFunc =
  "Update \<Rightarrow> error \<Rightarrow> 'z world_scheme \<Rightarrow> 'z world_scheme result"

type_synonym 'z BotHandlerFunc =
  "Update \<Rightarrow> 'z world_scheme \<Rightarrow> (Update \<times> 'z world_scheme) result"

text \<open>
  The loop of \<open>WithMiddleware\<close>: \<open>for i := len(middleware) - 1; i >= 0; i--\<close>, with
  \<open>handler = middleware[i](handler)\<close>. The first argument is \<open>i + 1\<close>.
\<close>

fun wrapFrom :: "nat \<Rightarrow> 'z MiddlewareFunc list \<Rightarrow> 'z HandlerFunc \<Rightarrow> 'z HandlerFunc" where
  "wrapFrom 0 middleware handler = handler"
| "wrapFrom (Suc i) middleware handler = wrapFrom i middleware ((middleware ! i) handler)"

definition wrapHandler :: "'z HandlerFunc \<Rightarrow> 'z MiddlewareFunc list \<Rightarrow> 'z HandlerFunc" where
  "wrapHandler h middleware = wrapFrom (length middleware) middleware h"

definition WithMiddleware ::
  "'z HandlerFunc \<Rightarrow> 'z ErrorHandlerFunc option \<Rightarrow> 'z MiddlewareFunc list \<Rightarrow> 'z BotHandlerFunc" where
  "WithMiddleware h e middleware = (\<lambda>update w.
     case wrapHandler h middleware update w of
       Panic \<Rightarrow> Panic
     | Return (None, u, w') \<Rightarrow> Return (u, w')
     | Return (Some err, u, w') \<Rightarrow>
         (case e of
            None \<Rightarrow> Return (u, w')
          | Some eh \<Rightarrow> (case eh u err w' of Panic \<Rightarrow> Panic | Return w'' \<Rightarrow> Return (u, w''))))"

text \<open>
  The error handler that \<open>newOptions\<close> installs: it logs \<open>update.Message.Text\<close>
  without a nil check.
\<close>

definition defaultErrorHandler :: "'z ErrorHandlerFunc" where
  "defaultErrorHandler update err w =
     (case Update_Message update of
        None \<Rightarrow> Panic
      | Some m \<Rightarrow> Return (slog_write LevelError ''receive error'' (AttrString (Message_Text m)) w))"

text \<open>
  Probes for the order of calls: a middleware and a terminal handler that log when they
  are entered and when they return.
\<close>

definition observe :: "string \<Rightarrow> 'z MiddlewareFunc" where
  "observe name next = (\<lambda>update w.
     case next update (slog_write LevelInfo ''call'' (AttrString name) w) of
       Panic \<Rightarrow> Panic
     | Return (err, u, w') \<Rightarrow> Return (err, u, slog_write LevelInfo ''return'' (AttrString name) w'))"

definition observeTerminal :: "string \<Rightarrow> 'z HandlerFunc" where
  "observeTerminal name = (\<lambda>update w.
     Return (None, update,
       slog_write LevelInfo ''return'' (AttrString name)
         (slog_write LevelInfo ''call'' (AttrString name) w)))"

section \<open>Strings\<close>

text \<open>
  Go strings are byte sequences. \<open>s[lo:hi]\<close> panics unless \<open>0 \<le> lo \<le> hi \<le> len(s)\<close>.
\<close>

definition slice :: "string \<Rightarrow> int \<Rightarrow> int \<Rightarrow> string result" where
  "slice s lo hi =
     (if 0 \<le> lo \<and> lo \<le> hi \<and> hi \<le> int (length s)
      then Return (take (nat (hi - lo)) (drop (nat lo) s)) else Panic)"

definition HasPrefix :: "string \<Rightarrow> string \<Rightarrow> bool" where
  "HasPrefix s prefix = (length prefix \<le> length s \<and> take (length prefix) s = prefix)"

definition HasSuffix :: "string \<Rightarrow> string \<Rightarrow> bool" where
  "HasSuffix s suffix =
     (length suffix \<le> length s \<and> drop (length s - length suffix) s = suffix)"

definition TrimPrefix :: "string \<Rightarrow> string \<Rightarrow> string" where
  "TrimPrefix s prefix = (if HasPrefix s prefix then drop (length prefix) s else s)"

text \<open>
  \<open>strings.ReplaceAll\<close>: the non-overlapping occurrences of \<open>old\<close>, leftmost first.
  An empty \<open>old\<close> matches before every UTF-8 sequence and at the end; the first branch
  takes each byte for one sequence, which is exact for ASCII text only. \<open>checkMention\<close>
  passes \<open>@\<close> followed by the username and never reaches it.
\<close>

function ReplaceAll :: "string \<Rightarrow> string \<Rightarrow> string \<Rightarrow> string" where
  "ReplaceAll s old new =
     (if old = [] then concat (map (\<lambda>c. new @ [c]) s) @ new
      else if s = [] then []
      else if HasPrefix s old then new @ ReplaceAll (drop (length old) s) old new
      else hd s # ReplaceAll (tl s) old new)"
  by pat_completeness auto
termination
  by (relation "measure (\<lambda>(s, old, new). length s)") (auto simp: HasPrefix_def)

declare ReplaceAll.simps [simp del]

text \<open>\<open>strings.Index\<close> for a one-byte separator; \<open>None\<close> is the result \<open>-1\<close>.\<close>

fun Index :: "string \<Rightarrow> char \<Rightarrow> nat option" where
  "Index [] sep = None"
| "Index (c # cs) sep = (if c = sep then Some 0 else map_option Suc (Index cs sep))"

text \<open>\<open>strings.SplitN(s, sep, 2)\<close>: cut at the first separator, if there is one.\<close>

definition SplitN :: "string \<Rightarrow> char \<Rightarrow> string list" where
  "SplitN s sep = (case Index s sep of None \<Rightarrow> [s] | Some m \<Rightarrow> [take m s, drop (Suc m) s])"

section \<open>Routing\<close>

datatype HandlerType = HandlerTypeMessageText | HandlerTypeCallbackQueryData

datatype MatchType = MatchTypeExact | MatchTypePrefix

record 'z handler =
  handlerType :: HandlerType
  pattern :: string
  matchType :: MatchType
  handler_fn :: "'z BotHandlerFunc"

text \<open>
  The router of the bot library, which the repository calls but does not contain. A text
  handler reads \<open>Message.Text\<close>, a callback handler reads \<open>CallbackQuery.Data\<close>;
  \<open>MatchTypeExact\<close> compares for equality and \<open>MatchTypePrefix\<close> tests
  \<open>strings.HasPrefix\<close>. \<open>BindCallback\<close> registers with the same \<open>MatchTypePrefix\<close>,
  and its doc comment states the meaning: the route "menu:" matches "menu:item1".
\<close>

definition handler_match :: "'z handler \<Rightarrow> Update \<Rightarrow> bool" where
  "handler_match h update =
     (case (case handlerType h of
              HandlerTypeMessageText \<Rightarrow> map_option Message_Text (Update_Message update)
            | HandlerTypeCallbackQueryData \<Rightarrow>
                map_option Callback_Data (Update_CallbackQuery update)) of
        None \<Rightarrow> False
      | Some data \<Rightarrow>
          (case matchType h of
             MatchTypeExact \<Rightarrow> data = pattern h
           | MatchTypePrefix \<Rightarrow> HasPrefix data (pattern h)))"

record 'z Bot =
  middlewares :: "'z MiddlewareFunc list"
  errorHandler :: "'z ErrorHandlerFunc option"
  handlers :: "'z handler list"

definition RegisterHandler ::
  "HandlerType \<Rightarrow> string \<Rightarrow> MatchType \<Rightarrow> 'z BotHandlerFunc \<Rightarrow> 'z Bot \<Rightarrow> 'z Bot" where
  "RegisterHandler ht pat mt fn b =
     b\<lparr>handlers := handlers b @
        [\<lparr>handlerType = ht, pattern = pat, matchType = mt, handler_fn = fn\<rparr>]\<rparr>"

definition appendMiddlewares :: "'z Bot \<Rightarrow> 'z MiddlewareFunc list \<Rightarrow> 'z MiddlewareFunc list" where
  "appendMiddlewares b ms = middlewares b @ ms"

definition BindCommand ::
  "string \<Rightarrow> 'z HandlerFunc \<Rightarrow> 'z MiddlewareFunc list \<Rightarrow> 'z Bot \<Rightarrow> 'z Bot" where
  "BindCommand command handlerFunc ms b =
     (let fn = WithMiddleware handlerFunc (errorHandler b) (appendMiddlewares b ms);
          command' = ''/'' @ TrimPrefix command ''/''
      in RegisterHandler HandlerTypeMessageText command' MatchTypePrefix fn b)"

text \<open>The handler bound last.\<close>

definition registered :: "'z Bot \<Rightarrow> 'z handler" where
  "registered b = last (handlers b)"

text \<open>A text message in a private chat, and a bot with nothing bound.\<close>

definition textUpdate :: "string \<Rightarrow> Update" where
  "textUpdate t = \<lparr>Update_Message = Some \<lparr>Message_ID = 1, Message_From = None,
      Message_ChatType = ChatTypePrivate, Message_Text = t, Message_Entities = None,
      Message_Caption = [], Message_CaptionEntities = None, Message_ReplyToMessage = None\<rparr>,
     Update_CallbackQuery = None\<rparr>"

definition emptyBot :: "unit Bot" where
  "emptyBot = \<lparr>middlewares = [], errorHandler = None, handlers = []\<rparr>"

section \<open>Callback data\<close>

text \<open>
  The compressing JSON codec is a collaborator: \<open>marshal\<close> returns its bytes and its
  error as the Go function does, \<open>unmarshal\<close> an error or the value. \<open>MarshalData\<close>
  drops the error of \<open>marshal\<close>.
\<close>

definition UnmarshalData ::
  "(string \<Rightarrow> error + 'v) \<Rightarrow> string \<Rightarrow> string \<times> 'v option \<times> error option" where
  "UnmarshalData unmarshal data =
     (case SplitN data (CHR '':'') of
        [route, payload] \<Rightarrow>
          (case unmarshal payload of
             Inl err \<Rightarrow> (route, None, Some err)
           | Inr v \<Rightarrow> (route, Some v, None))
      | _ \<Rightarrow> ([], None, Some (ErrorsNew ''invalid data format'')))"

definition MarshalData :: "('v \<Rightarrow> string \<times> error option) \<Rightarrow> string \<Rightarrow> 'v \<Rightarrow> string" where
  "MarshalData marshal route data = (let (b, _) = marshal data in route @ '':'' @ b)"

text \<open>A value is serializable when marshalling succeeds and unmarshalling gives it back.\<close>

definition serializable ::
  "('v \<Rightarrow> string \<times> error option) \<Rightarrow> (string \<Rightarrow> error + 'v) \<Rightarrow> 'v \<Rightarrow> bool" where
  "serializable marshal unmarshal v =
     (snd (marshal v) = None \<and> unmarshal (fst (marshal v)) = Inr v)"

section \<open>Retry on rate limit\<close>

text \<open>
  The operation \<open>send\<close> acts on a state of its own. The trace records each invocation
  and each sleep, with the slept duration in nanoseconds.
\<close>

datatype retry_event = Invoked | Slept int

text \<open>
  \<open>time.Duration(RetryAfter) * time.Second\<close>: a product of 64-bit signed integers,
  which wraps around.
\<close>

definition sleepDuration :: "int \<Rightarrow> int" where
  "sleepDuration retryAfter = sint ((word_of_int retryAfter :: 64 word) * 1000000000)"

text \<open>
  \<open>maxRetries\<close> is decremented only when it is not negative, so it never overflows.
\<close>

function RetryOnTooManyRequestsError ::
  "int \<Rightarrow> ('s \<Rightarrow> error option \<times> 's) \<Rightarrow> 's \<Rightarrow> retry_event list
     \<Rightarrow> error option \<times> 's \<times> retry_event list" where
  "RetryOnTooManyRequestsError maxRetries send s tr =
     (if maxRetries < 0 then (Some (ErrorsNew ''max retries exceeded''), s, tr)
      else case send s of
        (None, s') \<Rightarrow> (None, s', tr @ [Invoked])
      | (Some (TooManyRequestsError retryAfter), s') \<Rightarrow>
          RetryOnTooManyRequestsError (maxRetries - 1) send s'
            (tr @ [Invoked, Slept (sleepDuration retryAfter)])
      | (Some (ErrorsNew msg), s') \<Rightarrow> (Some (ErrorsNew msg), s', tr @ [Invoked]))"
  by pat_completeness auto
termination
  by (relation "measure (\<lambda>(maxRetries, send, s, tr). nat (maxRetries + 1))") auto

text \<open>
  Two operations for the examples. The state counts the invocations: \<open>failTwice\<close> is
  rate limited with a zero wait twice and then succeeds; \<open>probe\<close> is rate limited with a
  wait of 3 seconds, then fails otherwise, then succeeds.
\<close>

definition failTwice :: "nat \<Rightarrow> error option \<times> nat" where
  "failTwice n = (if n < 2 then Some (TooManyRequestsError 0) else None, Suc n)"

definition probe :: "nat \<Rightarrow> error option \<times> nat" where
  "probe n = (if n = 0 then Some (TooManyRequestsError 3)
              else if n = 1 then Some (ErrorsNew ''boom'') else None, Suc n)"

section \<open>Broadcast\<close>

text \<open>
  The context, the rate limiter and the send function act on a state \<open>'s\<close>. The trace
  records each progress report and each send with its index, target and outcome.
\<close>

datatype 't broadcast_event = Progress nat nat nat | Sent nat 't "error option"

record ('t, 's) broadcastEnv =
  ctxErr :: "'s \<Rightarrow> error option"
  limiterWait :: "'s \<Rightarrow> error option \<times> 's"
  send :: "'t \<Rightarrow> 's \<Rightarrow> error option \<times> 's"

record 's broadcastOptions =
  progress :: "(nat \<Rightarrow> nat \<Rightarrow> nat \<Rightarrow> 's \<Rightarrow> 's) option"
  terminalOnSendError :: bool

text \<open>\<open>if opts.progress != nil { opts.progress(i, errCount, total) }\<close>\<close>

definition report ::
  "'s broadcastOptions \<Rightarrow> nat \<Rightarrow> nat \<Rightarrow> nat \<Rightarrow> 's \<Rightarrow> 's \<times> 't broadcast_event list" where
  "report opts i errCount tot s =
     (case progress opts of
        None \<Rightarrow> (s, [])
      | Some f \<Rightarrow> (f i errCount tot s, [Progress i errCount tot]))"

text \<open>
  The loop over the targets. \<open>Inl err\<close> is a return from inside the loop, \<open>Inr errCount\<close>
  the end of the loop.
\<close>

fun broadcastLoop ::
  "('t, 's) broadcastEnv \<Rightarrow> 's broadcastOptions \<Rightarrow> nat \<Rightarrow> nat \<Rightarrow> nat \<Rightarrow> 't list
     \<Rightarrow> 's \<Rightarrow> 't broadcast_event list \<Rightarrow> (error + nat) \<times> 's \<times> 't broadcast_event list" where
  "broadcastLoop env opts tot i errCount [] s tr = (Inr errCount, s, tr)"
| "broadcastLoop env opts tot i errCount (d # ds) s tr =
     (case ctxErr env s of
        Some err \<Rightarrow> (Inl err, s, tr)
      | None \<Rightarrow>
          (let (s1, ev) = report opts i errCount tot s; tr1 = tr @ ev in
           case limiterWait env s1 of
             (Some err, s2) \<Rightarrow> (Inl err, s2, tr1)
           | (None, s2) \<Rightarrow>
               (case send env d s2 of
                  (Some err, s3) \<Rightarrow>
                    if terminalOnSendError opts then (Inl err, s3, tr1 @ [Sent i d (Some err)])
                    else broadcastLoop env opts tot (Suc i) (Suc errCount) ds s3
                           (tr1 @ [Sent i d (Some err)])
                | (None, s3) \<Rightarrow>
                    broadcastLoop env opts tot (Suc i) errCount ds s3 (tr1 @ [Sent i d None]))))"

definition BroadcastMessage ::
  "('t, 's) broadcastEnv \<Rightarrow> 's broadcastOptions \<Rightarrow> 't list \<Rightarrow> 's
     \<Rightarrow> error option \<times> 's \<times> 't broadcast_event list" where
  "BroadcastMessage env opts data s =
     (let tot = length data in
      case broadcastLoop env opts tot 0 0 data s [] of
        (Inl err, s', tr) \<Rightarrow> (Some err, s', tr)
      | (Inr errCount, s', tr) \<Rightarrow>
          (let (s'', ev) = report opts tot errCount tot s' in (None, s'', tr @ ev)))"

text \<open>Reading a trace: the sends with their indices, and the sends with their outcomes.\<close>

fun sends :: "'t broadcast_event list \<Rightarrow> (nat \<times> 't) list" where
  "sends [] = []"
| "sends (Sent i d r # tr) = (i, d) # sends tr"
| "sends (Progress i e t # tr) = sends tr"

fun sentResults :: "'t broadcast_event list \<Rightarrow> ('t \<times> error option) list" where
  "sentResults [] = []"
| "sentResults (Sent i d r # tr) = (d, r) # sentResults tr"
| "sentResults (Progress i e t # tr) = sentResults tr"

text \<open>
  The trace of a delivery that is not aborted, given the outcome of each send: before
  each send a report of the index and of the errors so far, and a last report with the
  index equal to the total. Without a progress callback the reports are absent.
\<close>

fun completeTrace ::
  "bool \<Rightarrow> nat \<Rightarrow> nat \<Rightarrow> nat \<Rightarrow> ('t \<times> error option) list \<Rightarrow> 't broadcast_event list" where
  "completeTrace p tot i e [] = (if p then [Progress tot e tot] else [])"
| "completeTrace p tot i e ((d, r) # xs) =
     (if p then [Progress i e tot] else []) @ Sent i d r #
     completeTrace p tot (Suc i) (if r = None then e else Suc e) xs"

text \<open>
  What holds of every trace, aborted or not: each send is preceded by the report of its
  own index and of the errors counted so far, and no report is followed by another.
\<close>

fun reportedBeforeSend ::
  "bool \<Rightarrow> nat \<Rightarrow> nat \<Rightarrow> nat \<Rightarrow> 't broadcast_event list \<Rightarrow> bool" where
  "reportedBeforeSend p tot i e [] = True"
| "reportedBeforeSend p tot i e [Progress i' e' t'] = (p \<and> i' = i \<and> e' = e \<and> t' = tot)"
| "reportedBeforeSend p tot i e (Progress i' e' t' # Sent j d r # tr) =
     (p \<and> i' = i \<and> e' = e \<and> t' = tot \<and> j = i
      \<and> reportedBeforeSend p tot (Suc i) (if r = None then e else Suc e) tr)"
| "reportedBeforeSend p tot i e (Progress i' e' t' # Progress j f u # tr) = False"
| "reportedBeforeSend p tot i e (Sent j d r # tr) =
     (\<not> p \<and> j = i \<and> reportedBeforeSend p tot (Suc i) (if r = None then e else Suc e) tr)"

text \<open>
  The environment of the examples: the context is never cancelled, the limiter always
  admits, and the send fails for the target \<open>b\<close> only. The state counts the sends.
\<close>

definition failOnly :: "string \<Rightarrow> string \<Rightarrow> nat \<Rightarrow> error option \<times> nat" where
  "failOnly bad d s = (if d = bad then Some (ErrorsNew ''blocked'') else None, Suc s)"

definition quietEnv :: "(string, nat) broadcastEnv" where
  "quietEnv = \<lparr>ctxErr = (\<lambda>s. None), limiterWait = (\<lambda>s. (None, s)), send = failOnly ''b''\<rparr>"

text \<open>
  An environment whose context is cancelled in state 7 and whose limiter fails in
  state 18.
\<close>

definition moodyEnv :: "(string, nat) broadcastEnv" where
  "moodyEnv =
     \<lparr>ctxErr = (\<lambda>s. if s = 7 then Some (ErrorsNew ''context canceled'') else None),
      limiterWait = (\<lambda>s. if s = 18 then (Some (ErrorsNew ''rate: would exceed deadline''), s)
                          else (None, s)),
      send = failOnly ''b''\<rparr>"

text \<open>
  The rest of a delivery, after a first target whose send had the outcome \<open>r\<close>, seen as
  a delivery of its own to the remaining targets: \<open>failures r\<close> is the error it carries
  in, \<open>carryOptions\<close> shows its progress callback the index and the total one higher and
  the error count with the carried error added, and \<open>carryEvent\<close> does the same to an
  event of its trace.
\<close>

definition failures :: "error option \<Rightarrow> nat" where
  "failures r = (if r = None then 0 else 1)"

definition carryOptions :: "nat \<Rightarrow> 's broadcastOptions \<Rightarrow> 's broadcastOptions" where
  "carryOptions k opts =
     opts\<lparr>progress := map_option (\<lambda>f i e t. f (Suc i) (k + e) (Suc t)) (progress opts)\<rparr>"

fun carryEvent :: "nat \<Rightarrow> 't broadcast_event \<Rightarrow> 't broadcast_event" where
  "carryEvent k (Progress i e t) = Progress (Suc i) (k + e) (Suc t)"
| "carryEvent k (Sent i d r) = Sent (Suc i) d r"

section \<open>Mention filter\<close>

text \<open>
  \<open>text[:offset] + mid + text[offset+len:]\<close>: the text with the span replaced by
  \<open>mid\<close>.
\<close>

definition splice :: "string \<Rightarrow> int \<Rightarrow> int \<Rightarrow> string \<Rightarrow> string result" where
  "splice text offset len mid =
     (case slice text 0 offset of
        Panic \<Rightarrow> Panic
      | Return front \<Rightarrow>
          (case slice text (offset + len) (int (length text)) of
             Panic \<Rightarrow> Panic
           | Return back \<Rightarrow> Return (front @ mid @ back)))"

text \<open>
  The loop of \<open>checkMention\<close> over the entities. \<open>text\<close> is the variable that the loop
  both slices and reassigns; \<open>entity.User\<close> is a pointer, nil unless the entity is a
  text mention.
\<close>

fun checkMentionLoop ::
  "MessageEntity list \<Rightarrow> string \<Rightarrow> bool \<Rightarrow> int \<Rightarrow> string \<Rightarrow> bool \<Rightarrow> (string \<times> bool) result" where
  "checkMentionLoop [] text isMention botID username trimMention = Return (text, isMention)"
| "checkMentionLoop (entity # entities) text isMention botID username trimMention =
     (case slice text (Entity_Offset entity) (Entity_Offset entity + Entity_Length entity) of
        Panic \<Rightarrow> Panic
      | Return entityStr \<Rightarrow>
          (case Entity_Type entity of
             MessageEntityTypeMention \<Rightarrow>
               if entityStr = CHR ''@'' # username then
                 (if trimMention then
                    (case splice text (Entity_Offset entity) (Entity_Length entity) [] of
                       Panic \<Rightarrow> Panic
                     | Return text' \<Rightarrow>
                         checkMentionLoop entities text' True botID username trimMention)
                  else checkMentionLoop entities text True botID username trimMention)
               else checkMentionLoop entities text isMention botID username trimMention
           | MessageEntityTypeTextMention \<Rightarrow>
               (case Entity_User entity of
                  None \<Rightarrow> Panic
                | Some u \<Rightarrow>
                    if User_ID u = botID then
                      (if trimMention then
                         (case splice text (Entity_Offset entity) (Entity_Length entity) [] of
                            Panic \<Rightarrow> Panic
                          | Return text' \<Rightarrow>
                              checkMentionLoop entities text' True botID username trimMention)
                       else checkMentionLoop entities text True botID username trimMention)
                    else checkMentionLoop entities text isMention botID username trimMention)
           | MessageEntityTypeBotCommand \<Rightarrow>
               if HasSuffix entityStr (CHR ''@'' # username) then
                 (if trimMention then
                    (case splice text (Entity_Offset entity) (Entity_Length entity)
                            (ReplaceAll entityStr (CHR ''@'' # username) []) of
                       Panic \<Rightarrow> Panic
                     | Return text' \<Rightarrow>
                         checkMentionLoop entities text' True botID username trimMention)
                  else checkMentionLoop entities text True botID username trimMention)
               else checkMentionLoop entities text isMention botID username trimMention
           | MessageEntityTypeOther t \<Rightarrow>
               checkMentionLoop entities text isMention botID username trimMention))"

definition checkMention ::
  "string \<Rightarrow> MessageEntity list \<Rightarrow> int \<Rightarrow> string \<Rightarrow> bool \<Rightarrow> (string \<times> bool) result" where
  "checkMention text entities botID username trimMention =
     checkMentionLoop entities text False botID username trimMention"

definition isGroupChatType :: "ChatType \<Rightarrow> bool" where
  "isGroupChatType t = (t = ChatTypeGroup \<or> t = ChatTypeSupergroup \<or> t = ChatTypeChannel)"

text \<open>
  The bot identity cached by the middleware: \<open>user\<close> and the time \<open>ts\<close> of the fetch.
  The clock reading \<open>now\<close> and the outcome of \<open>GetMe\<close>, were it called, are given.
\<close>

record botInfo =
  user :: "User option"
  ts :: int

definition getBotInfo ::
  "int \<Rightarrow> int \<Rightarrow> error + User \<Rightarrow> botInfo \<Rightarrow> (error + int \<times> string) \<times> botInfo" where
  "getBotInfo infoExpire now GetMe c =
     (let fetch = (case GetMe of
                     Inl err \<Rightarrow> (Inl err, c)
                   | Inr u \<Rightarrow> (Inr (User_ID u, User_Username u), c\<lparr>user := Some u, ts := now\<rparr>))
      in case user c of
           None \<Rightarrow> fetch
         | Some u \<Rightarrow>
             if now - ts c < infoExpire then (Inr (User_ID u, User_Username u), c) else fetch)"

text \<open>
  The handler that \<open>NewGroupMessageFilterMiddleware\<close> returns around \<open>next\<close>, with the
  cache before and after.
\<close>

definition NewGroupMessageFilterMiddleware ::
  "bool \<Rightarrow> int \<Rightarrow> int \<Rightarrow> error + User \<Rightarrow> 'z HandlerFunc \<Rightarrow> botInfo \<Rightarrow> Update \<Rightarrow> 'z world_scheme
     \<Rightarrow> (error option \<times> Update \<times> 'z world_scheme) result \<times> botInfo" where
  "NewGroupMessageFilterMiddleware trimMention infoExpire now GetMe next c update w =
     (case Update_Message update of
        None \<Rightarrow> (next update w, c)
      | Some m \<Rightarrow>
          if \<not> isGroupChatType (Message_ChatType m) then (next update w, c)
          else
            (case getBotInfo infoExpire now GetMe c of
               (Inl err, c') \<Rightarrow>
                 (Return (Some err, update,
                    slog_write LevelError ''get bot info error'' (AttrError err) w), c')
             | (Inr (botID, username), c') \<Rightarrow>
                 (case (case Message_ReplyToMessage m of
                          None \<Rightarrow> Return False
                        | Some reply \<Rightarrow>
                            (case Reply_From reply of
                               None \<Rightarrow> Panic
                             | Some sender \<Rightarrow> Return (User_ID sender = botID))) of
                    Panic \<Rightarrow> (Panic, c')
                  | Return True \<Rightarrow> (next update w, c')
                  | Return False \<Rightarrow>
                      (case (case Message_Entities m of
                               None \<Rightarrow> Return (m, False)
                             | Some entities \<Rightarrow>
                                 if Message_Text m = [] then Return (m, False)
                                 else
                                   (case checkMention (Message_Text m) entities botID username
                                           trimMention of
                                      Panic \<Rightarrow> Panic
                                    | Return (text, mention) \<Rightarrow>
                                        Return (m\<lparr>Message_Text := text\<rparr>, mention \<or> False))) of
                         Panic \<Rightarrow> (Panic, c')
                       | Return (m1, isMention) \<Rightarrow>
                           (case (if isMention then Return (m1, isMention)
                                  else
                                    (case Message_CaptionEntities m1 of
                                       None \<Rightarrow> Return (m1, isMention)
                                     | Some entities \<Rightarrow>
                                         if Message_Caption m1 = [] then Return (m1, isMention)
                                         else
                                           (case checkMention (Message_Caption m1) entities botID
                                                   username trimMention of
                                              Panic \<Rightarrow> Panic
                                            | Return (text, mention) \<Rightarrow>
                                                Return (m1\<lparr>Message_Text := text\<rparr>,
                                                        mention \<or> isMention)))) of
                              Panic \<Rightarrow> (Panic, c')
                            | Return (m2, isMention') \<Rightarrow>
                                if isMention'
                                then (next (update\<lparr>Update_Message := Some m2\<rparr>) w, c')
                                else (Return (None, update\<lparr>Update_Message := Some m2\<rparr>, w),
                                      c'))))))"

text \<open>Entities and messages for the examples.\<close>

definition mentionAt :: "int \<Rightarrow> int \<Rightarrow> MessageEntity" where
  "mentionAt off len = \<lparr>Entity_Type = MessageEntityTypeMention, Entity_Offset = off,
     Entity_Length = len, Entity_User = None\<rparr>"

definition groupMessage ::
  "string \<Rightarrow> MessageEntity list option \<Rightarrow> string \<Rightarrow> MessageEntity list option \<Rightarrow> Update" where
  "groupMessage text entities caption captionEntities =
     \<lparr>Update_Message = Some \<lparr>Message_ID = 1, Message_From = None,
        Message_ChatType = ChatTypeGroup, Message_Text = text, Message_Entities = entities,
        Message_Caption = caption, Message_CaptionEntities = captionEntities,
        Message_ReplyToMessage = None\<rparr>,
      Update_CallbackQuery = None\<rparr>"

definition theBot :: User where
  "theBot = \<lparr>User_ID = 1, User_Username = ''bot''\<rparr>"

definition tagAt :: "int \<Rightarrow> int \<Rightarrow> MessageEntity" where
  "tagAt off len = \<lparr>Entity_Type = MessageEntityTypeOther ''hashtag'', Entity_Offset = off,
     Entity_Length = len, Entity_User = None\<rparr>"

section \<open>Middleware composition\<close>

lemma wrapFrom_foldr:
  "i \<le> length ms \<Longrightarrow> wrapFrom i ms h = foldr (\<lambda>m k. m k) (take i ms) h"
proof (induction i arbitrary: h)
  case 0
  then show ?case by simp
next
  case (Suc i)
  then have "take (Suc i) ms = take i ms @ [ms ! i]"
    by (simp add: take_Suc_conv_app_nth)
  with Suc show ?case by simp
qed

lemma wrapHandler_foldr: "wrapHandler h ms = foldr (\<lambda>m k. m k) ms h"
  by (simp add: wrapHandler_def wrapFrom_foldr)

text \<open>
  C8. The chain \<open>[m1, m2]\<close> around the terminal handler \<open>T\<close> is \<open>m1 (m2 T)\<close>, and any
  chain is the right fold of its middlewares. With logging probes \<open>A\<close>, \<open>B\<close> around a
  logging terminal \<open>T\<close>, the calls are logged in the order A, B, T and the returns in the
  order T, B, A, and the wrapped handler returns normally.
\<close>

theorem WithMiddleware_order:
  "wrapHandler T [m1, m2] = m1 (m2 T)
   \<and> wrapHandler T ms = foldr (\<lambda>m k. m k) ms T
   \<and> WithMiddleware (observeTerminal ''T'') e [observe ''A'', observe ''B''] u w =
       Return (u, w\<lparr>slog := slog w @
         [(LevelInfo, ''call'', AttrString ''A''), (LevelInfo, ''call'', AttrString ''B''),
          (LevelInfo, ''call'', AttrString ''T''), (LevelInfo, ''return'', AttrString ''T''),
          (LevelInfo, ''return'', AttrString ''B''), (LevelInfo, ''return'', AttrString ''A'')]\<rparr>)"
  by (simp add: wrapHandler_foldr WithMiddleware_def observe_def observeTerminal_def slog_write_def)

section \<open>The default error handler\<close>

text \<open>
  C6. With the default error handler installed, when the wrapped handler chain returns
  an error and leaves an update whose Message is nil, the bot handler panics and
  nothing is logged by the error handler.
\<close>

theorem defaultErrorHandler_nil_Message:
  assumes "wrapHandler h ms update w = Return (Some err, u, w')"
    and "Update_Message u = None"
  shows "WithMiddleware h (Some defaultErrorHandler) ms update w = Panic"
  using assms by (simp add: WithMiddleware_def defaultErrorHandler_def)

theorem defaultErrorHandler_nil_Message_witness:
  "WithMiddleware (\<lambda>u w. Return (Some (ErrorsNew ''boom''), u, w)) (Some defaultErrorHandler) []
     \<lparr>Update_Message = None,
      Update_CallbackQuery = Some \<lparr>Callback_ID = ''1'',
        Callback_From = \<lparr>User_ID = 7, User_Username = ''ann''\<rparr>,
        Callback_Data = ''menu:[1]'', Callback_Message = None\<rparr>\<rparr>
     \<lparr>slog = []\<rparr> = Panic"
proof (rule defaultErrorHandler_nil_Message [where err = "ErrorsNew ''boom''"])
  show "wrapHandler (\<lambda>u w. Return (Some (ErrorsNew ''boom''), u, w)) []
     \<lparr>Update_Message = None,
      Update_CallbackQuery = Some \<lparr>Callback_ID = ''1'',
        Callback_From = \<lparr>User_ID = 7, User_Username = ''ann''\<rparr>,
        Callback_Data = ''menu:[1]'', Callback_Message = None\<rparr>\<rparr>
     \<lparr>slog = []\<rparr> =
    Return (Some (ErrorsNew ''boom''),
     \<lparr>Update_Message = None,
      Update_CallbackQuery = Some \<lparr>Callback_ID = ''1'',
        Callback_From = \<lparr>User_ID = 7, User_Username = ''ann''\<rparr>,
        Callback_Data = ''menu:[1]'', Callback_Message = None\<rparr>\<rparr>,
     \<lparr>slog = []\<rparr>)"
    by (simp add: wrapHandler_def)
qed simp

section \<open>Command routing\<close>

text \<open>
  C2, as stated, fails. After \<open>BindCommand "start"\<close> the registered pattern is
  \<open>/start\<close>, and the text \<open>/startup\<close>, which is not that pattern, matches the
  handler.
\<close>

theorem BindCommand_exact_counterexample:
  "handler_match (registered (BindCommand ''start'' (observeTerminal ''T'') [] emptyBot))
     (textUpdate ''/startup'')
   \<and> ''/startup'' \<noteq> pattern (registered (BindCommand ''start'' (observeTerminal ''T'') [] emptyBot))"
  by (simp add: BindCommand_def RegisterHandler_def emptyBot_def handler_match_def textUpdate_def
      TrimPrefix_def HasPrefix_def Let_def registered_def)

text \<open>
  C2, amended. \<open>BindCommand\<close> appends one text handler whose pattern is \<open>/\<close> followed
  by the command without one leading \<open>/\<close>, so the pattern starts with \<open>/\<close> and
  \<open>start\<close> and \<open>/start\<close> register the same pattern. The handler is registered with
  prefix matching: an update matches it exactly when it has a message whose text starts
  with the pattern.
\<close>

theorem BindCommand_prefix:
  "handlers (BindCommand command h ms b) = handlers b @ [registered (BindCommand command h ms b)]
   \<and> handlerType (registered (BindCommand command h ms b)) = HandlerTypeMessageText
   \<and> matchType (registered (BindCommand command h ms b)) = MatchTypePrefix
   \<and> pattern (registered (BindCommand command h ms b)) = CHR ''/'' # TrimPrefix command ''/''
   \<and> HasPrefix (pattern (registered (BindCommand command h ms b))) ''/''
   \<and> pattern (registered (BindCommand ''start'' h ms b)) = ''/start''
   \<and> pattern (registered (BindCommand ''/start'' h ms b)) = ''/start''
   \<and> handler_match (registered (BindCommand command h ms b)) update =
       (case Update_Message update of
          None \<Rightarrow> False
        | Some m \<Rightarrow> HasPrefix (Message_Text m) (CHR ''/'' # TrimPrefix command ''/''))"
  by (simp add: BindCommand_def RegisterHandler_def handler_match_def
      TrimPrefix_def HasPrefix_def Let_def registered_def split: option.splits)

section \<open>Callback data round trip\<close>

lemma Index_first: "sep \<notin> set r \<Longrightarrow> Index (r @ sep # b) sep = Some (length r)"
  by (induction r) auto

lemma SplitN_route: "sep \<notin> set r \<Longrightarrow> SplitN (r @ sep # b) sep = [r, b]"
  by (simp add: SplitN_def Index_first)

text \<open>
  C9. For a route without \<open>:\<close> and a serializable value, unmarshalling the marshalled
  data returns the route, the value and no error.
\<close>

theorem UnmarshalData_MarshalData:
  assumes "CHR '':'' \<notin> set r" and "serializable marshal unmarshal v"
  shows "UnmarshalData unmarshal (MarshalData marshal r v) = (r, Some v, None)"
proof -
  obtain b e where m: "marshal v = (b, e)" by (cases "marshal v")
  with assms(2) have u: "unmarshal b = Inr v" by (simp add: serializable_def)
  from assms(1) have "SplitN (r @ CHR '':'' # b) (CHR '':'') = [r, b]" by (rule SplitN_route)
  with m u show ?thesis by (simp add: UnmarshalData_def MarshalData_def)
qed

theorem UnmarshalData_MarshalData_witness:
  "UnmarshalData Inr (MarshalData (\<lambda>v. (v, None)) ''test'' ''[1:2]'') =
     (''test'', Some ''[1:2]'', None)"
  by (rule UnmarshalData_MarshalData) (simp_all add: serializable_def)

section \<open>Retry on rate limit\<close>

lemma sleepDuration_exact:
  assumes "0 \<le> r" and "r \<le> 9223372036"
  shows "sleepDuration r = r * 1000000000"
proof -
  have w: "(word_of_int r :: 64 word) * 1000000000 = word_of_int (r * 1000000000)"
    by simp
  have lo: "- (2 ^ 63) \<le> r * 1000000000"
    using assms(1) by (simp add: order_trans [of _ "0::int"])
  have hi: "r * 1000000000 < 2 ^ 63"
    using assms(2) by simp
  have "sleepDuration r = sint (word_of_int (r * 1000000000) :: 64 word)"
    by (simp only: sleepDuration_def w)
  also have "\<dots> = signed_take_bit (LENGTH(64) - 1) (r * 1000000000)"
    by (rule sint_sbintrunc')
  also have "\<dots> = signed_take_bit 63 (r * 1000000000)"
    by simp
  also have "\<dots> = r * 1000000000"
    by (rule signed_take_bit_int_eq_self [OF lo hi])
  finally show ?thesis .
qed

lemma sleepDuration_0: "sleepDuration 0 = 0"
  by (simp add: sleepDuration_def)

text \<open>
  C3. With a budget that is not negative: when the operation succeeds the result is nil
  after that one invocation; on a rate-limit error the function sleeps the duration the
  error carries and goes on with the budget decremented, the duration being exactly the
  carried seconds whenever they fit the 64-bit nanosecond range; any other error is
  returned at once. With a negative budget the result is the error "max retries exceeded"
  and the operation is not invoked. When the operation is rate limited twice with a zero
  wait and then succeeds, the budget 2 gives nil after 3 invocations and the budget 1
  gives "max retries exceeded" after 2 invocations.
\<close>

theorem RetryOnTooManyRequestsError_cases:
  "(0 \<le> n \<and> op s = (None, s') \<longrightarrow>
      RetryOnTooManyRequestsError n op s tr = (None, s', tr @ [Invoked]))
   \<and> (0 \<le> n \<and> op t = (Some (TooManyRequestsError r), t') \<longrightarrow>
      RetryOnTooManyRequestsError n op t tr =
        RetryOnTooManyRequestsError (n - 1) op t' (tr @ [Invoked, Slept (sleepDuration r)]))
   \<and> (0 \<le> r \<and> r \<le> 9223372036 \<longrightarrow> sleepDuration r = r * 1000000000)
   \<and> (0 \<le> n \<and> op u = (Some (ErrorsNew msg), u') \<longrightarrow>
      RetryOnTooManyRequestsError n op u tr = (Some (ErrorsNew msg), u', tr @ [Invoked]))
   \<and> (k < 0 \<longrightarrow>
      RetryOnTooManyRequestsError k op s tr = (Some (ErrorsNew ''max retries exceeded''), s, tr))
   \<and> RetryOnTooManyRequestsError 2 failTwice 0 [] =
        (None, 3, [Invoked, Slept 0, Invoked, Slept 0, Invoked])
   \<and> RetryOnTooManyRequestsError 1 failTwice 0 [] =
        (Some (ErrorsNew ''max retries exceeded''), 2, [Invoked, Slept 0, Invoked, Slept 0])"
  by (simp add: sleepDuration_exact failTwice_def sleepDuration_0)

theorem RetryOnTooManyRequestsError_cases_witness:
  "RetryOnTooManyRequestsError 1 probe 2 [] = (None, 3, [Invoked])
   \<and> RetryOnTooManyRequestsError 1 probe 0 [] =
       RetryOnTooManyRequestsError 0 probe 1 [Invoked, Slept (sleepDuration 3)]
   \<and> sleepDuration 3 = 3000000000
   \<and> RetryOnTooManyRequestsError 1 probe 1 [] = (Some (ErrorsNew ''boom''), 2, [Invoked])
   \<and> RetryOnTooManyRequestsError (- 1) probe 2 [] =
       (Some (ErrorsNew ''max retries exceeded''), 2, [])"
proof -
  have p2: "probe 2 = (None, 3)" and p0: "probe 0 = (Some (TooManyRequestsError 3), 1)"
    and p1: "probe 1 = (Some (ErrorsNew ''boom''), 2)"
    by (simp_all add: probe_def)
  note c = RetryOnTooManyRequestsError_cases [where n = 1 and op = probe and s = 2 and s' = 3
      and t = 0 and r = 3 and t' = 1 and u = 1 and msg = "''boom''" and u' = 2 and k = "- 1"
      and tr = "[]"]
  from c p2 have a: "RetryOnTooManyRequestsError 1 probe 2 [] = (None, 3, [Invoked])"
    by simp
  from c p0 have b: "RetryOnTooManyRequestsError 1 probe 0 [] =
       RetryOnTooManyRequestsError 0 probe 1 [Invoked, Slept (sleepDuration 3)]"
    by simp
  from c have d: "sleepDuration 3 = 3000000000"
    by simp
  from c p1 have e: "RetryOnTooManyRequestsError 1 probe 1 [] = (Some (ErrorsNew ''boom''), 2, [Invoked])"
    by simp
  from c have f: "RetryOnTooManyRequestsError (- 1) probe 2 [] =
       (Some (ErrorsNew ''max retries exceeded''), 2, [])"
    by simp
  from a b d e f show ?thesis by blast
qed

section \<open>Broadcast\<close>

lemma broadcastLoop_trace:
  "broadcastLoop env opts tot i e ds s tr =
     (case broadcastLoop env opts tot i e ds s [] of (res, s', ev) \<Rightarrow> (res, s', tr @ ev))"
proof (induction ds arbitrary: i e s tr)
  case Nil
  show ?case by simp
next
  case (Cons d ds)
  note IH = Cons.IH
  show ?case
    by (simp split: option.splits prod.splits)
       (auto simp: IH [of _ _ _ "_ @ _"] IH [of _ _ _ "[_]"] IH [of _ _ _ "_ # _"] split: prod.splits)
qed


lemma broadcastLoop_Cons:
  "broadcastLoop env opts tot i e (d # ds) s [] =
     (case ctxErr env s of
        Some err \<Rightarrow> (Inl err, s, [])
      | None \<Rightarrow>
          (case report opts i e tot s of (s1, ev) \<Rightarrow>
           (case limiterWait env s1 of
              (Some err, s2) \<Rightarrow> (Inl err, s2, ev)
            | (None, s2) \<Rightarrow>
               (case send env d s2 of
                  (Some err, s3) \<Rightarrow>
                    if terminalOnSendError opts then (Inl err, s3, ev @ [Sent i d (Some err)])
                    else (case broadcastLoop env opts tot (Suc i) (Suc e) ds s3 [] of
                            (res, s', ev') \<Rightarrow> (res, s', ev @ Sent i d (Some err) # ev'))
                | (None, s3) \<Rightarrow>
                    (case broadcastLoop env opts tot (Suc i) e ds s3 [] of
                       (res, s', ev') \<Rightarrow> (res, s', ev @ Sent i d None # ev'))))))"
  by (simp split: option.splits prod.splits)
     (auto simp: broadcastLoop_trace [of _ _ _ _ _ _ _ "_ @ _"] broadcastLoop_trace [of _ _ _ _ _ _ _ "[_]"]
        broadcastLoop_trace [of _ _ _ _ _ _ _ "_ # _"] split: prod.splits)

lemma sends_append: "sends (xs @ ys) = sends xs @ sends ys"
  by (induction xs rule: sends.induct) simp_all

lemma sentResults_append: "sentResults (xs @ ys) = sentResults xs @ sentResults ys"
  by (induction xs rule: sentResults.induct) simp_all

lemma report_cases:
  "report opts i e tot s = (s1, ev) \<Longrightarrow>
     ev = (if progress opts \<noteq> None then [Progress i e tot] else [])"
  by (auto simp: report_def split: option.splits)

lemma zip_upt_Cons: "zip [i..<i + Suc n] (d # ds) = (i, d) # zip [Suc i..<Suc i + n] ds"
  by (simp add: upt_conv_Cons)

lemma loop_sends:
  "broadcastLoop env opts tot i e ds s [] = (res, s', ev) \<Longrightarrow>
     sends ev = take (length (sends ev)) (zip [i..<i + length ds] ds)"
proof (induction ds arbitrary: i e s res s' ev)
  case Nil
  then show ?case by simp
next
  case (Cons d ds)
  have z: "zip [i..<i + length (d # ds)] (d # ds) = (i, d) # zip [Suc i..<Suc i + length ds] ds"
    using zip_upt_Cons [of i "length ds" d ds] by simp
  from Cons.prems show ?case
    unfolding broadcastLoop_Cons z
    by (auto split: option.splits prod.splits if_splits
        simp: sends_append dest!: report_cases dest: Cons.IH)
qed


lemma loop_complete:
  "broadcastLoop env opts tot i e ds s [] = (Inr e', s', ev) \<Longrightarrow>
     ev @ (if progress opts \<noteq> None then [Progress tot e' tot] else []) =
       completeTrace (progress opts \<noteq> None) tot i e (sentResults ev)
     \<and> map fst (sentResults ev) = ds"
proof (induction ds arbitrary: i e s s' ev)
  case Nil
  then show ?case by simp
next
  case (Cons d ds)
  from Cons.prems show ?case
    unfolding broadcastLoop_Cons
    by (auto split: option.splits prod.splits if_splits
        simp: sentResults_append dest!: report_cases dest: Cons.IH)
qed

lemma loop_reported:
  "broadcastLoop env opts tot i e ds s [] = (res, s', ev) \<Longrightarrow>
     reportedBeforeSend (progress opts \<noteq> None) tot i e ev"
proof (induction ds arbitrary: i e s res s' ev)
  case Nil
  then show ?case by simp
next
  case (Cons d ds)
  from Cons.prems show ?case
    unfolding broadcastLoop_Cons
    by (auto split: option.splits prod.splits if_splits
        dest!: report_cases dest: Cons.IH)
qed

lemma loop_abort:
  fixes ev :: "'t broadcast_event list" and s :: 's
  shows "broadcastLoop env opts tot i e ds s [] = (Inl err, s', ev) \<Longrightarrow>
     (\<exists>x. ctxErr env x = Some err) \<or> (\<exists>x. fst (limiterWait env x) = Some err)
     \<or> (terminalOnSendError opts \<and> ev \<noteq> [] \<and> (\<exists>j d. last ev = Sent j d (Some err)))"
proof (induction ds arbitrary: i e s s' ev)
  case Nil
  then show ?case by simp
next
  case (Cons d ds)
  show ?case
  proof (cases "ctxErr env s")
    case (Some a)
    with Cons.prems show ?thesis by auto
  next
    case None
    obtain s1 ev1 where r: "report opts i e tot s = (s1, ev1 :: 't broadcast_event list)"
      by (cases "report opts i e tot s :: 's \<times> 't broadcast_event list")
    obtain w s2 where w: "limiterWait env s1 = (w, s2)" by (cases "limiterWait env s1")
    obtain r3 s3 where sd: "send env d s2 = (r3, s3)" by (cases "send env d s2")
    show ?thesis
    proof (cases w)
      case (Some a)
      with Cons.prems None r w have "a = err"
        unfolding broadcastLoop_Cons by simp
      with w Some have "fst (limiterWait env s1) = Some err" by simp
      then show ?thesis by blast
    next
      case wNone: None
      show ?thesis
      proof (cases "r3 \<noteq> None \<and> terminalOnSendError opts")
        case True
        with Cons.prems None r w wNone sd show ?thesis
          unfolding broadcastLoop_Cons by auto
      next
        case False
        define e1 where "e1 = (if r3 = None then e else Suc e)"
        obtain res2 s4 ev2 where l: "broadcastLoop env opts tot (Suc i) e1 ds s3 [] = (res2, s4, ev2)"
          by (cases "broadcastLoop env opts tot (Suc i) e1 ds s3 []")
        from Cons.prems None r w wNone sd False l
        have eq: "res2 = Inl err" "ev = ev1 @ Sent i d r3 # ev2"
          unfolding broadcastLoop_Cons e1_def by (auto split: option.splits if_splits)
        from Cons.IH [OF l [unfolded eq(1)]] eq(2) show ?thesis
          by auto
      qed
    qed
  qed
qed

lemma loop_no_abort:
  fixes env :: "('t, 's) broadcastEnv"
  assumes "\<forall>x. ctxErr env x = None" and "\<forall>x. fst (limiterWait env x) = None"
  shows "terminalOnSendError opts \<longrightarrow> (\<forall>d \<in> set ds. \<forall>x. fst (send env d x) = None) \<Longrightarrow>
    \<exists>e' s' ev. broadcastLoop env opts tot i e ds s [] = (Inr e', s', ev)"
proof (induction ds arbitrary: i e s)
  case Nil
  show ?case by simp
next
  case (Cons d ds)
  obtain s1 ev1 where r: "report opts i e tot s = (s1, ev1 :: 't broadcast_event list)"
      by (cases "report opts i e tot s :: 's \<times> 't broadcast_event list")
  obtain w s2 where w: "limiterWait env s1 = (w, s2)" by (cases "limiterWait env s1")
  with assms(2) have wN: "w = None" by (metis fst_conv)
  obtain r3 s3 where sd: "send env d s2 = (r3, s3)" by (cases "send env d s2")
  have ok: "terminalOnSendError opts \<longrightarrow> r3 = None"
    using Cons.prems sd by (metis fst_conv list.set_intros(1))
  have rest: "terminalOnSendError opts \<longrightarrow> (\<forall>d \<in> set ds. \<forall>x. fst (send env d x) = None)"
    using Cons.prems by simp
  from Cons.IH [OF rest, of "Suc i" "if r3 = None then e else Suc e" s3]
  obtain e' s' ev where "broadcastLoop env opts tot (Suc i) (if r3 = None then e else Suc e) ds s3 [] = (Inr e', s', ev)"
    by blast
  with assms r w wN sd ok show ?case
    unfolding broadcastLoop_Cons by (cases r3) auto
qed

lemma reportedBeforeSend_final:
  "reportedBeforeSend p tot i e ev \<Longrightarrow> sentResults ev = xs \<Longrightarrow> p \<Longrightarrow>
     i + length xs = tot \<Longrightarrow>
     ev @ [Progress tot e' tot] = completeTrace p tot i e xs \<Longrightarrow>
     reportedBeforeSend p tot i e (ev @ [Progress tot e' tot])"
  by (induction p tot i e ev arbitrary: xs rule: reportedBeforeSend.induct) auto

lemma BroadcastMessage_three_targets:
  "BroadcastMessage quietEnv \<lparr>progress = Some (\<lambda>i e t s. s), terminalOnSendError = False\<rparr>
      [''a'', ''b'', ''c''] 0 =
    (None, 3, [Progress 0 0 3, Sent 0 ''a'' None, Progress 1 0 3,
       Sent 1 ''b'' (Some (ErrorsNew ''blocked'')), Progress 2 1 3, Sent 2 ''c'' None,
       Progress 3 1 3])"
  by (simp add: BroadcastMessage_def quietEnv_def failOnly_def report_def)

lemma report_carry:
  "report opts (Suc i) (k + e) (Suc t) s =
     (case report (carryOptions k opts) i e t s of (s1, ev) \<Rightarrow> (s1, map (carryEvent k) ev))"
  by (simp add: report_def carryOptions_def split: option.splits)

lemma broadcastLoop_carry:
  "broadcastLoop env opts (Suc tot) (Suc i) (k + e) ds s [] =
     (case broadcastLoop env (carryOptions k opts) tot i e ds s [] of
        (res, s', ev) \<Rightarrow> (case res of Inl err \<Rightarrow> Inl err | Inr e' \<Rightarrow> Inr (k + e'), s', map (carryEvent k) ev))"
proof (induction ds arbitrary: i e s)
  case Nil
  show ?case by simp
next
  case (Cons d ds)
  have t: "terminalOnSendError (carryOptions k opts) = terminalOnSendError opts"
    by (simp add: carryOptions_def)
  have suc: "\<And>e. Suc (k + e) = k + Suc e" by simp
  show ?case
    unfolding broadcastLoop_Cons report_carry [of opts i k e tot s] t suc Cons.IH
    by (simp split: option.splits prod.splits sum.splits)
qed


lemma BroadcastMessage_Nil:
  "BroadcastMessage env opts [] s = (case report opts 0 0 0 s of (s1, ev) \<Rightarrow> (None, s1, ev))"
  by (simp add: BroadcastMessage_def)

lemma BroadcastMessage_cancelled:
  "ctxErr env s = Some err \<Longrightarrow> BroadcastMessage env opts (d # ds) s = (Some err, s, [])"
  by (simp add: BroadcastMessage_def)

lemma BroadcastMessage_limited:
  "ctxErr env s = None \<Longrightarrow> report opts 0 0 (Suc (length ds)) s = (s1, ev) \<Longrightarrow>
     limiterWait env s1 = (Some err, s2) \<Longrightarrow>
     BroadcastMessage env opts (d # ds) s = (Some err, s2, ev)"
  by (simp add: BroadcastMessage_def)

lemma BroadcastMessage_stopped:
  "ctxErr env s = None \<Longrightarrow> report opts 0 0 (Suc (length ds)) s = (s1, ev) \<Longrightarrow>
     limiterWait env s1 = (None, s2) \<Longrightarrow> send env d s2 = (Some err, s3) \<Longrightarrow>
     terminalOnSendError opts \<Longrightarrow>
     BroadcastMessage env opts (d # ds) s = (Some err, s3, ev @ [Sent 0 d (Some err)])"
  by (simp add: BroadcastMessage_def)

lemma BroadcastMessage_continued:
  assumes "ctxErr env s = None" and "report opts 0 0 (Suc (length ds)) s = (s1, ev)"
    and "limiterWait env s1 = (None, s2)" and "send env d s2 = (x, s3)"
    and "x = None \<or> \<not> terminalOnSendError opts"
  shows "BroadcastMessage env opts (d # ds) s =
     (case BroadcastMessage env (carryOptions (failures x) opts) ds s3 of
        (r, s', rest) \<Rightarrow> (r, s', ev @ Sent 0 d x # map (carryEvent (failures x)) rest))"
proof -
  let ?k = "failures x"
  have e1: "(if x = None then 0 else Suc 0) = ?k + 0"
    by (simp add: failures_def)
  have first: "broadcastLoop env opts (Suc (length ds)) 0 0 (d # ds) s [] =
      (case broadcastLoop env opts (Suc (length ds)) (Suc 0) (?k + 0) ds s3 [] of
         (res, s', ev') \<Rightarrow> (res, s', ev @ Sent 0 d x # ev'))"
    unfolding broadcastLoop_Cons using assms
    by (cases x) (simp_all add: failures_def)
  show ?thesis
    unfolding BroadcastMessage_def Let_def length_Cons first broadcastLoop_carry
    by (simp add: report_carry [of opts "length ds" ?k _ "length ds"] split: prod.splits sum.splits)
qed


lemma BroadcastMessage_run:
  fixes env :: "('t, 's) broadcastEnv" and tr :: "'t broadcast_event list"
  assumes run: "BroadcastMessage env opts data s = (r, s', tr)"
  shows "sends tr = take (length (sends tr)) (zip [0..<length data] data)
    \<and> reportedBeforeSend (progress opts \<noteq> None) (length data) 0 0 tr
    \<and> (r = None \<longrightarrow>
          tr = completeTrace (progress opts \<noteq> None) (length data) 0 0 (sentResults tr)
          \<and> map fst (sentResults tr) = data)
    \<and> (r = Some err \<longrightarrow>
          (\<exists>x. ctxErr env x = Some err) \<or> (\<exists>x. fst (limiterWait env x) = Some err)
          \<or> (terminalOnSendError opts \<and> tr \<noteq> [] \<and> (\<exists>j d. last tr = Sent j d (Some err))))
    \<and> ((\<forall>x. ctxErr env x = None) \<and> (\<forall>x. fst (limiterWait env x) = None)
          \<and> (terminalOnSendError opts \<longrightarrow> (\<forall>d \<in> set data. \<forall>x. fst (send env d x) = None))
          \<longrightarrow> r = None)"
proof -
  obtain res s1 ev where l: "broadcastLoop env opts (length data) 0 0 data s [] = (res, s1, ev)"
    by (cases "broadcastLoop env opts (length data) 0 0 data s []")
  note ord = loop_sends [OF l] and rep = loop_reported [OF l]
  show ?thesis
  proof (cases res)
    case (Inl a)
    with run l have eq: "r = Some a" "tr = ev"
      by (simp_all add: BroadcastMessage_def)
    have ab: "(\<exists>x. ctxErr env x = Some a) \<or> (\<exists>x. fst (limiterWait env x) = Some a)
       \<or> (terminalOnSendError opts \<and> ev \<noteq> [] \<and> (\<exists>j d. last ev = Sent j d (Some a)))"
      using loop_abort [OF l [unfolded Inl]] .
    have na: "\<not> ((\<forall>x. ctxErr env x = None) \<and> (\<forall>x. fst (limiterWait env x) = None)
          \<and> (terminalOnSendError opts \<longrightarrow> (\<forall>d \<in> set data. \<forall>x. fst (send env d x) = None)))"
    proof
      assume h: "(\<forall>x. ctxErr env x = None) \<and> (\<forall>x. fst (limiterWait env x) = None)
          \<and> (terminalOnSendError opts \<longrightarrow> (\<forall>d \<in> set data. \<forall>x. fst (send env d x) = None))"
      then obtain e' s' ev' where
        "broadcastLoop env opts (length data) 0 0 data s [] = (Inr e', s', ev' :: 't broadcast_event list)"
        using loop_no_abort [of env opts data "length data" 0 0 s] by blast
      with l Inl show False by simp
    qed
    have 1: "r = Some err \<longrightarrow>
          (\<exists>x. ctxErr env x = Some err) \<or> (\<exists>x. fst (limiterWait env x) = Some err)
          \<or> (terminalOnSendError opts \<and> tr \<noteq> [] \<and> (\<exists>j d. last tr = Sent j d (Some err)))"
      using ab eq by auto
    from ord rep 1 na eq show ?thesis
      by simp
  next
    case (Inr e')
    obtain s2 fin where f: "report opts (length data) e' (length data) s1 = (s2, fin :: 't broadcast_event list)"
      by (cases "report opts (length data) e' (length data) s1 :: 's \<times> 't broadcast_event list")
    note fin = report_cases [OF f]
    from run l Inr f have eq: "r = None" "tr = ev @ fin"
      by (simp_all add: BroadcastMessage_def)
    note c = loop_complete [OF l [unfolded Inr]]
    have 1: "sends tr = take (length (sends tr)) (zip [0..<length data] data)"
      using ord eq fin by (simp add: sends_append)
    have sr: "sentResults tr = sentResults ev"
      unfolding eq(2) fin by (simp add: sentResults_append)
    have "tr = completeTrace (progress opts \<noteq> None) (length data) 0 0 (sentResults ev)"
      unfolding eq(2) fin using c by simp
    then have 2: "tr = completeTrace (progress opts \<noteq> None) (length data) 0 0 (sentResults tr)"
      unfolding sr .
    have 3: "map fst (sentResults tr) = data"
      unfolding sr using c by simp
    have 4: "reportedBeforeSend (progress opts \<noteq> None) (length data) 0 0 tr"
    proof (cases "progress opts \<noteq> None")
      case True
      with c have "ev @ [Progress (length data) e' (length data)] =
          completeTrace True (length data) 0 0 (sentResults ev)"
        by simp
      moreover have "0 + length (sentResults ev) = length data"
        using c by (metis add_0 length_map)
      ultimately show ?thesis
        using reportedBeforeSend_final [OF rep refl, of e'] True fin eq by simp
    next
      case False
      with rep fin eq show ?thesis by simp
    qed
    from 1 2 3 4 eq show ?thesis
      by simp
  qed
qed



text \<open>
  C4. In every run the sends are a prefix of the targets in input order, numbered from
  0, and each send is preceded by the progress report of its index and of the errors
  counted so far. When the result is nil every target was sent and the trace is the
  complete one: a report before each send and a last report whose index is the total,
  carrying the number of failed sends. When the result is an error, it is the error of
  the context, of the rate limiter, or of the last send with stop-on-first-error set.
  When the context is never cancelled, the limiter never fails and either
  stop-on-first-error is not set or no send to a target fails, the result is nil.

  The delivery is determined target by target. A report calls the progress callback on
  the state, when there is one. With no target the result is nil after the one report
  (0, 0, 0). With a first target: a cancelled context returns its error at once, with
  nothing reported or sent; otherwise after the report a failing limiter returns its
  error with nothing sent; otherwise a failing send with stop-on-first-error set returns
  its error and no later target is touched; otherwise the delivery goes on with the
  remaining targets from the state the send left, the failed send counted, and returns
  what that returns.

  With 3 targets, failing only at index 1, the result is nil, the sends are 0, 1, 2 and
  the last report is (3, 1, 3).
\<close>

theorem BroadcastMessage_delivery:
  fixes env :: "('t, 's) broadcastEnv" and tr :: "'t broadcast_event list"
  assumes run: "BroadcastMessage env opts data s = (r, s', tr)"
  shows "sends tr = take (length (sends tr)) (zip [0..<length data] data)
    \<and> reportedBeforeSend (progress opts \<noteq> None) (length data) 0 0 tr
    \<and> (r = None \<longrightarrow>
          tr = completeTrace (progress opts \<noteq> None) (length data) 0 0 (sentResults tr)
          \<and> map fst (sentResults tr) = data)
    \<and> (r = Some err \<longrightarrow>
          (\<exists>x. ctxErr env x = Some err) \<or> (\<exists>x. fst (limiterWait env x) = Some err)
          \<or> (terminalOnSendError opts \<and> tr \<noteq> [] \<and> (\<exists>j d. last tr = Sent j d (Some err))))
    \<and> ((\<forall>x. ctxErr env x = None) \<and> (\<forall>x. fst (limiterWait env x) = None)
          \<and> (terminalOnSendError opts \<longrightarrow> (\<forall>d \<in> set data. \<forall>x. fst (send env d x) = None))
          \<longrightarrow> r = None)
    \<and> (report opts i e n st :: 's \<times> 't broadcast_event list) =
          (case progress opts of
             None \<Rightarrow> (st, [])
           | Some f \<Rightarrow> (f i e n st, [Progress i e n]))
    \<and> BroadcastMessage env opts [] st =
          (case report opts 0 0 0 st of (s1, ev) \<Rightarrow> (None, s1, ev :: 't broadcast_event list))
    \<and> (ctxErr env sa = Some errC \<longrightarrow>
          BroadcastMessage env opts (d # ds) sa = (Some errC, sa, []))
    \<and> (ctxErr env sb = None \<and> report opts 0 0 (Suc (length ds)) sb = (sb1, evb)
          \<and> limiterWait env sb1 = (Some errL, sb2) \<longrightarrow>
          BroadcastMessage env opts (d # ds) sb = (Some errL, sb2, evb))
    \<and> (ctxErr env sc = None \<and> report opts 0 0 (Suc (length ds)) sc = (sc1, evc)
          \<and> limiterWait env sc1 = (None, sc2) \<and> send env dc sc2 = (Some errS, sc3)
          \<and> terminalOnSendError opts \<longrightarrow>
          BroadcastMessage env opts (dc # ds) sc = (Some errS, sc3, evc @ [Sent 0 dc (Some errS)]))
    \<and> (ctxErr env sd = None \<and> report opts 0 0 (Suc (length ds)) sd = (sd1, evd)
          \<and> limiterWait env sd1 = (None, sd2) \<and> send env dk sd2 = (x, sd3)
          \<and> (x = None \<or> \<not> terminalOnSendError opts) \<longrightarrow>
          BroadcastMessage env opts (dk # ds) sd =
            (case BroadcastMessage env (carryOptions (failures x) opts) ds sd3 of
               (r', sf, rest) \<Rightarrow>
                 (r', sf, evd @ Sent 0 dk x # map (carryEvent (failures x)) rest)))
    \<and> BroadcastMessage quietEnv \<lparr>progress = Some (\<lambda>i e t s. s), terminalOnSendError = False\<rparr>
          [''a'', ''b'', ''c''] 0 =
        (None, 3, [Progress 0 0 3, Sent 0 ''a'' None, Progress 1 0 3,
           Sent 1 ''b'' (Some (ErrorsNew ''blocked'')), Progress 2 1 3, Sent 2 ''c'' None,
           Progress 3 1 3])"
proof -
  note whole = BroadcastMessage_run [OF run, of err]
  have rep: "(report opts i e n st :: 's \<times> 't broadcast_event list) =
          (case progress opts of
             None \<Rightarrow> (st, [])
           | Some f \<Rightarrow> (f i e n st, [Progress i e n]))"
    by (simp add: report_def)
  have nil: "BroadcastMessage env opts [] st =
          (case report opts 0 0 0 st of (s1, ev) \<Rightarrow> (None, s1, ev :: 't broadcast_event list))"
    by (rule BroadcastMessage_Nil)
  have cancelled: "ctxErr env sa = Some errC \<longrightarrow>
          BroadcastMessage env opts (d # ds) sa = (Some errC, sa, [])"
    by (simp add: BroadcastMessage_cancelled)
  have limited: "ctxErr env sb = None \<and> report opts 0 0 (Suc (length ds)) sb = (sb1, evb)
          \<and> limiterWait env sb1 = (Some errL, sb2) \<longrightarrow>
          BroadcastMessage env opts (d # ds) sb = (Some errL, sb2, evb)"
    by (simp add: BroadcastMessage_limited)
  have stopped: "ctxErr env sc = None \<and> report opts 0 0 (Suc (length ds)) sc = (sc1, evc)
          \<and> limiterWait env sc1 = (None, sc2) \<and> send env dc sc2 = (Some errS, sc3)
          \<and> terminalOnSendError opts \<longrightarrow>
          BroadcastMessage env opts (dc # ds) sc = (Some errS, sc3, evc @ [Sent 0 dc (Some errS)])"
    by (simp add: BroadcastMessage_stopped)
  have continued: "ctxErr env sd = None \<and> report opts 0 0 (Suc (length ds)) sd = (sd1, evd)
          \<and> limiterWait env sd1 = (None, sd2) \<and> send env dk sd2 = (x, sd3)
          \<and> (x = None \<or> \<not> terminalOnSendError opts) \<longrightarrow>
          BroadcastMessage env opts (dk # ds) sd =
            (case BroadcastMessage env (carryOptions (failures x) opts) ds sd3 of
               (r', sf, rest) \<Rightarrow>
                 (r', sf, evd @ Sent 0 dk x # map (carryEvent (failures x)) rest))"
    using BroadcastMessage_continued [of env sd opts ds sd1 evd sd2 dk x sd3] by blast
  from whole rep nil cancelled limited stopped continued BroadcastMessage_three_targets
  show ?thesis by (intro conjI) blast+
qed

theorem BroadcastMessage_delivery_witness:
  "sends [Progress 0 0 3, Sent 0 ''a'' None, Progress 1 0 3,
       Sent 1 ''b'' (Some (ErrorsNew ''blocked'')), Progress 2 1 3, Sent 2 ''c'' None,
       Progress 3 1 3] = [(0, ''a''), (1, ''b''), (2, ''c'')]
   \<and> map fst (sentResults [Progress 0 0 3, Sent 0 ''a'' None, Progress 1 0 3,
       Sent 1 ''b'' (Some (ErrorsNew ''blocked'')), Progress 2 1 3, Sent 2 ''c'' None,
       Progress 3 1 3]) = [''a'', ''b'', ''c'']
   \<and> fst (BroadcastMessage quietEnv \<lparr>progress = Some (\<lambda>i e t s. s), terminalOnSendError = False\<rparr>
          [''a'', ''b'', ''c''] 0) = None
   \<and> last [Progress 0 0 3, Sent 0 ''a'' None, Progress 1 0 3,
       Sent 1 ''b'' (Some (ErrorsNew ''blocked''))] = Sent 1 ''b'' (Some (ErrorsNew ''blocked''))
   \<and> sends [Progress 0 0 3, Sent 0 ''a'' None, Progress 1 0 3,
       Sent 1 ''b'' (Some (ErrorsNew ''blocked''))] = [(0, ''a''), (1, ''b'')]
   \<and> BroadcastMessage moodyEnv \<lparr>progress = Some (\<lambda>i e t s. s + 10), terminalOnSendError = True\<rparr>
         [''a'', ''b''] 7 = (Some (ErrorsNew ''context canceled''), 7, [])
   \<and> BroadcastMessage moodyEnv \<lparr>progress = Some (\<lambda>i e t s. s + 10), terminalOnSendError = True\<rparr>
         [''a'', ''b''] 8 = (Some (ErrorsNew ''rate: would exceed deadline''), 18, [Progress 0 0 2])
   \<and> BroadcastMessage moodyEnv \<lparr>progress = Some (\<lambda>i e t s. s + 10), terminalOnSendError = True\<rparr>
         [''b'', ''b''] 0 =
       (Some (ErrorsNew ''blocked''), 11, [Progress 0 0 2, Sent 0 ''b'' (Some (ErrorsNew ''blocked''))])
   \<and> BroadcastMessage moodyEnv \<lparr>progress = Some (\<lambda>i e t s. s + 10), terminalOnSendError = True\<rparr>
         [''a'', ''b''] 0 =
       (Some (ErrorsNew ''blocked''), 22,
        [Progress 0 0 2, Sent 0 ''a'' None, Progress 1 0 2,
         Sent 1 ''b'' (Some (ErrorsNew ''blocked''))])"
proof -
  let ?on = "\<lparr>progress = Some (\<lambda>i e t s. s), terminalOnSendError = False\<rparr> :: nat broadcastOptions"
  let ?stop = "\<lparr>progress = Some (\<lambda>i e t s. s + 10), terminalOnSendError = True\<rparr> :: nat broadcastOptions"
  let ?full = "[Progress 0 0 3, Sent 0 ''a'' None, Progress 1 0 3,
       Sent 1 ''b'' (Some (ErrorsNew ''blocked'')), Progress 2 1 3, Sent 2 ''c'' None,
       Progress 3 1 3]"
  let ?cut = "[Progress 0 0 3, Sent 0 ''a'' None, Progress 1 0 3,
       Sent 1 ''b'' (Some (ErrorsNew ''blocked''))]"
  have run1: "BroadcastMessage quietEnv ?on [''a'', ''b'', ''c''] 0 = (None, 3, ?full)"
    by (simp add: BroadcastMessage_def quietEnv_def failOnly_def report_def)
  have run2: "BroadcastMessage moodyEnv ?stop [''a'', ''b'', ''c''] 0 =
      (Some (ErrorsNew ''blocked''), 22, ?cut)"
    by (simp add: BroadcastMessage_def moodyEnv_def failOnly_def report_def)
  have quiet: "(\<forall>x. ctxErr quietEnv x = None) \<and> (\<forall>x. fst (limiterWait quietEnv x) = None)
      \<and> (terminalOnSendError ?on \<longrightarrow>
           (\<forall>d \<in> set [''a'', ''b'', ''c'']. \<forall>x. fst (send quietEnv d x) = None))"
    by (simp add: quietEnv_def)
  note w1 = BroadcastMessage_delivery [OF run1, where err = "ErrorsNew ''blocked''"]
  note w2 = BroadcastMessage_delivery [OF run2, where err = "ErrorsNew ''blocked''"
      and sa = 7 and errC = "ErrorsNew ''context canceled''" and d = "''a''" and ds = "[''b'']"
      and sb = 8 and ?sb1.0 = 18 and evb = "[Progress 0 0 2]"
      and errL = "ErrorsNew ''rate: would exceed deadline''" and ?sb2.0 = 18
      and sc = 0 and dc = "''b''" and ?sc1.0 = 10 and evc = "[Progress 0 0 2]" and ?sc2.0 = 10
      and errS = "ErrorsNew ''blocked''" and ?sc3.0 = 11
      and sd = 0 and dk = "''a''" and ?sd1.0 = 10 and evd = "[Progress 0 0 2]" and ?sd2.0 = 10
      and x = None and ?sd3.0 = 11]
  from w1 quiet run1 have a: "sends ?full = [(0, ''a''), (1, ''b''), (2, ''c'')]"
    and b: "map fst (sentResults ?full) = [''a'', ''b'', ''c'']"
    and c: "fst (BroadcastMessage quietEnv ?on [''a'', ''b'', ''c''] 0) = None"
    by simp_all
  from w2 have d: "last ?cut = Sent 1 ''b'' (Some (ErrorsNew ''blocked''))"
    and e: "sends ?cut = [(0, ''a''), (1, ''b'')]"
    by simp_all
  have hc: "ctxErr moodyEnv 7 = Some (ErrorsNew ''context canceled'')"
    by (simp add: moodyEnv_def)
  have hl: "ctxErr moodyEnv 8 = None \<and> report ?stop 0 0 (Suc (length [''b''])) 8 = (18, [Progress 0 0 2])
      \<and> limiterWait moodyEnv 18 = (Some (ErrorsNew ''rate: would exceed deadline''), 18)"
    by (simp add: moodyEnv_def report_def)
  have hs: "ctxErr moodyEnv 0 = None \<and> report ?stop 0 0 (Suc (length [''b''])) 0 = (10, [Progress 0 0 2])
      \<and> limiterWait moodyEnv 10 = (None, 10)
      \<and> send moodyEnv ''b'' 10 = (Some (ErrorsNew ''blocked''), 11) \<and> terminalOnSendError ?stop"
    by (simp add: moodyEnv_def report_def failOnly_def)
  have hk: "ctxErr moodyEnv 0 = None \<and> report ?stop 0 0 (Suc (length [''b''])) 0 = (10, [Progress 0 0 2])
      \<and> limiterWait moodyEnv 10 = (None, 10)
      \<and> send moodyEnv ''a'' 10 = (None, 11) \<and> (None = (None :: error option) \<or> \<not> terminalOnSendError ?stop)"
    by (simp add: moodyEnv_def report_def failOnly_def)
  have rest: "BroadcastMessage moodyEnv (carryOptions (failures None) ?stop) [''b''] 11 =
      (Some (ErrorsNew ''blocked''), 22, [Progress 0 0 1, Sent 0 ''b'' (Some (ErrorsNew ''blocked''))])"
    by (simp add: BroadcastMessage_def moodyEnv_def report_def failOnly_def carryOptions_def
        failures_def)
  from w2 hc have f: "BroadcastMessage moodyEnv ?stop [''a'', ''b''] 7 =
      (Some (ErrorsNew ''context canceled''), 7, [])"
    by blast
  from w2 hl have g: "BroadcastMessage moodyEnv ?stop [''a'', ''b''] 8 =
      (Some (ErrorsNew ''rate: would exceed deadline''), 18, [Progress 0 0 2])"
    by blast
  from w2 hs have "BroadcastMessage moodyEnv ?stop [''b'', ''b''] 0 =
       (Some (ErrorsNew ''blocked''), 11,
        [Progress 0 0 2] @ [Sent 0 ''b'' (Some (ErrorsNew ''blocked''))])"
    by blast
  then have h: "BroadcastMessage moodyEnv ?stop [''b'', ''b''] 0 =
       (Some (ErrorsNew ''blocked''), 11, [Progress 0 0 2, Sent 0 ''b'' (Some (ErrorsNew ''blocked''))])"
    by simp
  from w2 hk have "BroadcastMessage moodyEnv ?stop [''a'', ''b''] 0 =
      (case BroadcastMessage moodyEnv (carryOptions (failures None) ?stop) [''b''] 11 of
         (r', sf, rest) \<Rightarrow>
           (r', sf, [Progress 0 0 2] @ Sent 0 ''a'' None # map (carryEvent (failures None)) rest))"
    by blast
  then have k: "BroadcastMessage moodyEnv ?stop [''a'', ''b''] 0 =
       (Some (ErrorsNew ''blocked''), 22,
        [Progress 0 0 2, Sent 0 ''a'' None, Progress 1 0 2,
         Sent 1 ''b'' (Some (ErrorsNew ''blocked''))])"
    unfolding rest by (simp add: failures_def)
  from a b c d e f g h k show ?thesis by simp
qed

section \<open>Mention filter\<close>

lemma checkMentionLoop_sticky:
  "checkMentionLoop entities str True botID username trimMention = Return (t, b) \<Longrightarrow> b"
  by (induction entities arbitrary: str)
     (auto split: result.splits MessageEntityType.splits if_splits option.splits)

lemma checkMentionLoop_unmatched:
  "checkMentionLoop entities str isMention botID username trimMention = Return (t, False)
     \<Longrightarrow> t = str \<and> \<not> isMention"
  by (induction entities arbitrary: str isMention)
     (auto split: result.splits MessageEntityType.splits if_splits option.splits
        dest: checkMentionLoop_sticky)

lemma checkMention_unmatched:
  "checkMention text entities botID username trimMention = Return (t, False) \<Longrightarrow> t = text"
  unfolding checkMention_def by (drule checkMentionLoop_unmatched) simp

text \<open>
  C1, evaluated on the code. The text \<open>@bot hi @bot\<close> mentions the bot twice. With
  trimming on, the first match reassigns the text to \<open> hi @bot\<close>, and the second
  entity, whose span \<open>[8, 12)\<close> is \<open>@bot\<close> in the original text, is sliced from the
  trimmed text, where it is out of range: the scan panics, and so does the middleware.
  Without trimming the same entities are read against the original text. In
  \<open>@bot@bot tail\<close> the second mention is read from the trimmed text too, is not
  recognised there, and stays in the result.
\<close>

theorem checkMention_stale_offsets:
  "checkMention ''@bot hi @bot'' [mentionAt 0 4, mentionAt 8 4] 1 ''bot'' True = Panic
   \<and> slice ''@bot hi @bot'' 8 12 = Return ''@bot''
   \<and> checkMention ''@bot hi @bot'' [mentionAt 0 4, mentionAt 8 4] 1 ''bot'' False =
       Return (''@bot hi @bot'', True)
   \<and> checkMention ''@bot@bot tail'' [mentionAt 0 4, mentionAt 4 4] 1 ''bot'' True =
       Return (''@bot tail'', True)
   \<and> fst (NewGroupMessageFilterMiddleware True 60 100 (Inr theBot) next \<lparr>user = None, ts = 0\<rparr>
        (groupMessage ''@bot hi @bot'' (Some [mentionAt 0 4, mentionAt 8 4]) [] None) w) = Panic"
  by (simp add: checkMention_def mentionAt_def slice_def splice_def
      NewGroupMessageFilterMiddleware_def groupMessage_def isGroupChatType_def getBotInfo_def
      theBot_def)

text \<open>
  C5. Take a group message that is not a reply to the bot, whose text scan found no
  mention, and whose caption is scanned with result \<open>(text', mention)\<close>. Then the
  middleware hands on the update with \<open>Message.Text\<close> replaced by \<open>text'\<close> and nothing
  else changed, so the caption is as it was: to the next handler when a caption entity
  matched, and otherwise as its own nil result, in which case \<open>text'\<close> is the caption
  itself.
\<close>

theorem caption_scan_overwrites_Text:
  assumes msg: "Update_Message update = Some m"
    and grp: "isGroupChatType (Message_ChatType m)"
    and info: "getBotInfo infoExpire now GetMe c = (Inr (botID, username), c')"
    and noreply: "case Message_ReplyToMessage m of
                    None \<Rightarrow> True
                  | Some reply \<Rightarrow>
                      (case Reply_From reply of
                         None \<Rightarrow> False
                       | Some sender \<Rightarrow> User_ID sender \<noteq> botID)"
    and textscan: "case Message_Entities m of
                     None \<Rightarrow> True
                   | Some entities \<Rightarrow>
                       Message_Text m = [] \<or>
                       (\<exists>t. checkMention (Message_Text m) entities botID username trimMention =
                               Return (t, False))"
    and cap: "Message_CaptionEntities m = Some centities" "Message_Caption m \<noteq> []"
    and capscan: "checkMention (Message_Caption m) centities botID username trimMention =
                    Return (text', mention)"
  shows "NewGroupMessageFilterMiddleware trimMention infoExpire now GetMe nextHandler c update w =
           (if mention
            then nextHandler (update\<lparr>Update_Message := Some (m\<lparr>Message_Text := text'\<rparr>)\<rparr>) w
            else Return (None, update\<lparr>Update_Message := Some (m\<lparr>Message_Text := text'\<rparr>)\<rparr>, w),
            c')
         \<and> Message_Caption (m\<lparr>Message_Text := text'\<rparr>) = Message_Caption m
         \<and> (\<not> mention \<longrightarrow> text' = Message_Caption m)"
proof -
  have reply: "(case Message_ReplyToMessage m of
                  None \<Rightarrow> Return False
                | Some reply \<Rightarrow>
                    (case Reply_From reply of
                       None \<Rightarrow> Panic
                     | Some sender \<Rightarrow> Return (User_ID sender = botID))) = Return False"
    using noreply by (auto split: option.splits)
  have "\<exists>t. (case Message_Entities m of
               None \<Rightarrow> Return (m, False)
             | Some entities \<Rightarrow>
                 if Message_Text m = [] then Return (m, False)
                 else
                   (case checkMention (Message_Text m) entities botID username trimMention of
                      Panic \<Rightarrow> Panic
                    | Return (text, mention) \<Rightarrow>
                        Return (m\<lparr>Message_Text := text\<rparr>, mention \<or> False))) =
             Return (m\<lparr>Message_Text := t\<rparr>, False)"
  proof (cases "Message_Entities m")
    case None
    then show ?thesis by (auto intro: exI [of _ "Message_Text m"])
  next
    case (Some entities)
    with textscan show ?thesis
      by (auto intro: exI [of _ "Message_Text m"])
  qed
  then obtain t where first: "(case Message_Entities m of
               None \<Rightarrow> Return (m, False)
             | Some entities \<Rightarrow>
                 if Message_Text m = [] then Return (m, False)
                 else
                   (case checkMention (Message_Text m) entities botID username trimMention of
                      Panic \<Rightarrow> Panic
                    | Return (text, mention) \<Rightarrow>
                        Return (m\<lparr>Message_Text := text\<rparr>, mention \<or> False))) =
             Return (m\<lparr>Message_Text := t\<rparr>, False)"
    by blast
  have run: "NewGroupMessageFilterMiddleware trimMention infoExpire now GetMe nextHandler c update w =
           (if mention
            then nextHandler (update\<lparr>Update_Message := Some (m\<lparr>Message_Text := text'\<rparr>)\<rparr>) w
            else Return (None, update\<lparr>Update_Message := Some (m\<lparr>Message_Text := text'\<rparr>)\<rparr>, w),
            c')"
    unfolding NewGroupMessageFilterMiddleware_def
    by (simp add: msg grp info reply first cap capscan)
  have unmatched: "\<not> mention \<longrightarrow> text' = Message_Caption m"
    using checkMention_unmatched [of "Message_Caption m" centities botID username trimMention text']
      capscan by (cases mention) simp_all
  from run unmatched show ?thesis by simp
qed


theorem caption_scan_overwrites_Text_witness:
  "NewGroupMessageFilterMiddleware True 60 100 (Inr theBot) (observeTerminal ''T'')
     \<lparr>user = None, ts = 0\<rparr>
     (groupMessage ''hello'' (Some [tagAt 0 5]) ''a photo'' (Some [tagAt 0 1])) \<lparr>slog = []\<rparr> =
   (Return (None, groupMessage ''a photo'' (Some [tagAt 0 5]) ''a photo'' (Some [tagAt 0 1]),
      \<lparr>slog = []\<rparr>), \<lparr>user = Some theBot, ts = 100\<rparr>)
   \<and> NewGroupMessageFilterMiddleware True 60 100 (Inr theBot) (observeTerminal ''T'')
     \<lparr>user = None, ts = 0\<rparr>
     (groupMessage ''hello'' None ''pic @bot'' (Some [mentionAt 4 4])) \<lparr>slog = []\<rparr> =
   (Return (None, groupMessage ''pic '' None ''pic @bot'' (Some [mentionAt 4 4]),
      \<lparr>slog = [(LevelInfo, ''call'', AttrString ''T''), (LevelInfo, ''return'', AttrString ''T'')]\<rparr>),
    \<lparr>user = Some theBot, ts = 100\<rparr>)"
proof -
  have a: "NewGroupMessageFilterMiddleware True 60 100 (Inr theBot) (observeTerminal ''T'')
     \<lparr>user = None, ts = 0\<rparr>
     (groupMessage ''hello'' (Some [tagAt 0 5]) ''a photo'' (Some [tagAt 0 1])) \<lparr>slog = []\<rparr> =
   (Return (None, groupMessage ''a photo'' (Some [tagAt 0 5]) ''a photo'' (Some [tagAt 0 1]),
      \<lparr>slog = []\<rparr>), \<lparr>user = Some theBot, ts = 100\<rparr>)"
    using caption_scan_overwrites_Text [where trimMention = True and infoExpire = 60 and now = 100
        and GetMe = "Inr theBot" and c = "\<lparr>user = None, ts = 0\<rparr>"
        and c' = "\<lparr>user = Some theBot, ts = 100\<rparr>" and botID = 1 and username = "''bot''"
        and update = "groupMessage ''hello'' (Some [tagAt 0 5]) ''a photo'' (Some [tagAt 0 1])"
        and m = "\<lparr>Message_ID = 1, Message_From = None, Message_ChatType = ChatTypeGroup,
           Message_Text = ''hello'', Message_Entities = Some [tagAt 0 5],
           Message_Caption = ''a photo'', Message_CaptionEntities = Some [tagAt 0 1],
           Message_ReplyToMessage = None\<rparr>"
        and centities = "[tagAt 0 1]" and text' = "''a photo''" and mention = False
        and nextHandler = "observeTerminal ''T''" and w = "\<lparr>slog = []\<rparr>"]
    by (simp add: groupMessage_def isGroupChatType_def getBotInfo_def theBot_def checkMention_def
        tagAt_def slice_def)
  have b: "NewGroupMessageFilterMiddleware True 60 100 (Inr theBot) (observeTerminal ''T'')
     \<lparr>user = None, ts = 0\<rparr>
     (groupMessage ''hello'' None ''pic @bot'' (Some [mentionAt 4 4])) \<lparr>slog = []\<rparr> =
   (Return (None, groupMessage ''pic '' None ''pic @bot'' (Some [mentionAt 4 4]),
      \<lparr>slog = [(LevelInfo, ''call'', AttrString ''T''), (LevelInfo, ''return'', AttrString ''T'')]\<rparr>),
    \<lparr>user = Some theBot, ts = 100\<rparr>)"
    using caption_scan_overwrites_Text [where trimMention = True and infoExpire = 60 and now = 100
        and GetMe = "Inr theBot" and c = "\<lparr>user = None, ts = 0\<rparr>"
        and c' = "\<lparr>user = Some theBot, ts = 100\<rparr>" and botID = 1 and username = "''bot''"
        and update = "groupMessage ''hello'' None ''pic @bot'' (Some [mentionAt 4 4])"
        and m = "\<lparr>Message_ID = 1, Message_From = None, Message_ChatType = ChatTypeGroup,
           Message_Text = ''hello'', Message_Entities = None,
           Message_Caption = ''pic @bot'', Message_CaptionEntities = Some [mentionAt 4 4],
           Message_ReplyToMessage = None\<rparr>"
        and centities = "[mentionAt 4 4]" and text' = "''pic ''" and mention = True
        and nextHandler = "observeTerminal ''T''" and w = "\<lparr>slog = []\<rparr>"]
    by (simp add: groupMessage_def isGroupChatType_def getBotInfo_def theBot_def checkMention_def
        mentionAt_def slice_def splice_def observeTerminal_def slog_write_def)
  from a b show ?thesis by (rule conjI)
qed

end
